theory Spec2Isabelle
  imports Complex_Main "HOL-Library.Sublist"
begin

section \<open>The recommendation core of the MeezGo media analyzer\<close>

text \<open>
  A shallow embedding of \<^verbatim>\<open>_compute_recommendations\<close> in \<^verbatim>\<open>src/main.py\<close>.
  The function is a single pass without loops, exceptions or state outside its
  locals, so it is modelled as a total function from the request record to the
  recommendation record. Python's unbounded \<^verbatim>\<open>int\<close> is \<^typ>\<open>int\<close>, an
  \<^verbatim>\<open>Optional[t]\<close> field is a \<^typ>\<open>'a option\<close>, a \<^verbatim>\<open>dict\<close> literal is an
  association list read through \<^const>\<open>map_of\<close>.
\<close>

subsection \<open>Data model (the pydantic classes)\<close>

text \<open>
  \<^verbatim>\<open>Context.service_type\<close> and \<^verbatim>\<open>AnalyzeRequest.context\<close> are renamed
  (\<open>ctx_service_type\<close>, \<open>req_context\<close>): the first would clash with the field
  of \<^verbatim>\<open>Recommendations\<close>, the second is reserved.
\<close>

record Context =
  place_type :: "string option"
  place_size :: "string option"
  pickup_floor :: "int option"
  destination_floor :: "int option"
  has_elevator :: "int option"
  add_heavy :: "int option"
  ctx_service_type :: "string option"

record AnalyzeRequest =
  mode :: string
  video_url :: "string option"
  image_urls :: "string list"
  req_context :: Context

text \<open>
  \<^verbatim>\<open>confidence\<close> is a Python float. The code only ever stores one of three
  decimal literals in it and never computes with it, so the field holds the number
  the literal denotes.
\<close>

record Recommendations =
  service_type :: string
  truck_size :: "string option"
  workers :: "int option"
  estimated_minutes :: "int option"
  reasons :: "string list"
  confidence :: real
  recommended_services :: "string list"

subsection \<open>Python primitives used by the function\<close>

text \<open>\<^verbatim>\<open>x or ""\<close> on an optional string: \<^verbatim>\<open>None\<close> and the empty string are falsy.\<close>

definition or_empty :: "string option \<Rightarrow> string" where
  "or_empty x = (case x of None \<Rightarrow> [] | Some s \<Rightarrow> (if s = [] then [] else s))"

text \<open>\<^verbatim>\<open>x or 0\<close> on an optional integer: \<^verbatim>\<open>None\<close> and \<^verbatim>\<open>0\<close> are falsy.\<close>

definition or_zero :: "int option \<Rightarrow> int" where
  "or_zero x = (case x of None \<Rightarrow> 0 | Some n \<Rightarrow> (if n = 0 then 0 else n))"

text \<open>\<^verbatim>\<open>bool(x)\<close> on an optional integer.\<close>

definition py_bool :: "int option \<Rightarrow> bool" where
  "py_bool x = (case x of None \<Rightarrow> False | Some n \<Rightarrow> n \<noteq> 0)"

text \<open>
  \<^verbatim>\<open>str.lower\<close>. A \<^typ>\<open>string\<close> is a list of bytes; the letters \<^verbatim>\<open>A\<close> to
  \<^verbatim>\<open>Z\<close> (codes 65 to 90) move to \<^verbatim>\<open>a\<close> to \<^verbatim>\<open>z\<close> and every other byte is
  kept, which is what Python does on ASCII text. The general theorems below hold
  whatever the lower-cased string turns out to be; only the concrete examples
  evaluate it, on ASCII size codes.
\<close>

definition lower_char :: "char \<Rightarrow> char" where
  "lower_char c =
     (let n = (of_char c :: nat)
      in if 65 \<le> n \<and> n \<le> 90 then char_of (n + 32) else c)"

definition lower :: "string \<Rightarrow> string" where
  "lower s = map lower_char s"

text \<open>\<^verbatim>\<open>s.startswith(p)\<close>.\<close>

definition startswith :: "string \<Rightarrow> string \<Rightarrow> bool" where
  "startswith s p = prefix p s"

text \<open>\<^verbatim>\<open>d.get(k, default)\<close> on a dict literal.\<close>

definition dict_get :: "('k \<times> 'v) list \<Rightarrow> 'k \<Rightarrow> 'v \<Rightarrow> 'v" where
  "dict_get d k dflt = (case map_of d k of None \<Rightarrow> dflt | Some v \<Rightarrow> v)"

subsection \<open>The stages of \<^verbatim>\<open>_compute_recommendations\<close>\<close>

text \<open>
  Lines 51 to 59: the minimum service from the size code. Four \<^verbatim>\<open>if\<close>
  statements run one after the other, each overwriting \<^verbatim>\<open>min_service\<close>.
\<close>

definition min_service_of :: "string \<Rightarrow> string" where
  "min_service_of psize =
     (let min_service = ''light'';
          min_service =
            (if startswith psize ''s3_'' \<or> startswith psize ''s4_''
             then ''medium'' else min_service);
          min_service =
            (if startswith psize ''villa_250_350'' then ''medium'' else min_service);
          min_service =
            (if startswith psize ''villa_350_500'' \<or> startswith psize ''comm_150_250''
             then ''heavy'' else min_service);
          min_service =
            (if startswith psize ''comm_100_150'' then ''medium'' else min_service)
      in min_service)"

text \<open>
  Lines 61 to 76: the suggested level and the reasons appended so far. The pair is
  the state of the two locals \<^verbatim>\<open>suggest_level\<close> and \<^verbatim>\<open>reasons\<close>, threaded through
  the three statements in source order.
\<close>

definition suggest :: "bool \<Rightarrow> bool \<Rightarrow> int \<Rightarrow> nat \<Rightarrow> int \<times> string list" where
  "suggest heavy elevator floors_total num_images =
     (let st = (1::int, [] :: string list);
          st = (if heavy
                then (max (fst st) 3, snd st @ [''vision_add_heavy_context''])
                else st);
          st = (if \<not> elevator \<and> floors_total \<ge> 3
                then (max (fst st) 2, snd st @ [''vision_multi_floor_no_elevator''])
                else st);
          st = (if num_images \<ge> 12
                then (max (fst st) 3, snd st @ [''vision_many_images_high_volume''])
                else if num_images \<ge> 6
                then (max (fst st) 2, snd st @ [''vision_medium_images_volume''])
                else st)
      in st)"

text \<open>Lines 78 to 82: the level as a service name.\<close>

definition level_svc :: "int \<Rightarrow> string" where
  "level_svc suggest_level =
     (if suggest_level \<ge> 3 then ''heavy''
      else if suggest_level \<ge> 2 then ''medium''
      else ''light'')"

text \<open>Lines 84 to 87: the ordinal table and the enforcement of the minimum.\<close>

definition order_dict :: "(string \<times> int) list" where
  "order_dict = [(''light'', 0), (''medium'', 1), (''heavy'', 2)]"

text \<open>\<^verbatim>\<open>order.get(s, 0)\<close>, the ordinal of a service name.\<close>

definition ordinal :: "string \<Rightarrow> int" where
  "ordinal s = dict_get order_dict s 0"

definition enforce_min :: "string \<Rightarrow> string \<Rightarrow> string list \<Rightarrow> string \<times> string list" where
  "enforce_min svc min_service rs =
     (if ordinal svc < ordinal min_service
      then (min_service, rs @ [''vision_place_size_minimum''])
      else (svc, rs))"

text \<open>Lines 89 to 108: the logistics table, its default, and the stairs penalty.\<close>

definition truck_map :: "(string \<times> (string \<times> int \<times> int)) list" where
  "truck_map =
     [(''s1_40_60'', (''small'', 2, 90)),
      (''s1_60_80'', (''small'', 2, 120)),
      (''s2_80_100'', (''medium'', 3, 150)),
      (''s2_100_120'', (''medium'', 3, 180)),
      (''s3_120_150'', (''large'', 4, 240)),
      (''s3_150_180'', (''large'', 4, 300)),
      (''s4_180_220'', (''xl'', 4, 360)),
      (''s4_220_260'', (''xl'', 5, 420)),
      (''villa_250_350'', (''xl'', 4, 420)),
      (''villa_350_500'', (''xxl'', 5, 480)),
      (''comm_30_60'', (''small'', 2, 120)),
      (''comm_60_100'', (''medium'', 3, 180)),
      (''comm_100_150'', (''large'', 4, 240)),
      (''comm_150_250'', (''xl'', 5, 360))]"

definition logistics :: "string \<Rightarrow> bool \<Rightarrow> int \<Rightarrow> string \<times> int \<times> int" where
  "logistics psize elevator floors_total =
     (case dict_get truck_map psize (''small'', 2, 120) of
        (t_size, wrk, est_minutes) \<Rightarrow>
          (t_size, wrk,
           if \<not> elevator \<and> floors_total > 0
           then est_minutes + floors_total * 20 else est_minutes))"

text \<open>Lines 110 to 114: the confidence.\<close>

definition base_conf_of :: "nat \<Rightarrow> real" where
  "base_conf_of num_images =
     (if num_images \<ge> 10 then 85 / 100
      else if num_images \<ge> 5 then 78 / 100
      else 7 / 10)"

text \<open>Lines 116 to 122: the services offered.\<close>

definition rec_services_of :: "string \<Rightarrow> string list" where
  "rec_services_of svc =
     (if svc = ''light'' then [''light'', ''medium'']
      else if svc = ''medium'' then [''medium'', ''heavy'']
      else [''heavy''])"

text \<open>
  The function itself: lines 42 to 48 normalise the context, the stages run in
  source order, lines 124 to 132 build the result.
\<close>

definition norm_place_size :: "AnalyzeRequest \<Rightarrow> string" where
  "norm_place_size req = lower (or_empty (place_size (req_context req)))"

definition floors_total_of :: "AnalyzeRequest \<Rightarrow> int" where
  "floors_total_of req =
     or_zero (pickup_floor (req_context req)) + or_zero (destination_floor (req_context req))"

definition compute_recommendations :: "AnalyzeRequest \<Rightarrow> Recommendations" where
  "compute_recommendations req =
     (let ctx = req_context req;
          psize = norm_place_size req;
          heavy = py_bool (add_heavy ctx);
          floors_total = floors_total_of req;
          elevator = py_bool (has_elevator ctx);
          min_service = min_service_of psize;
          num_images = length (image_urls req);
          (suggest_level, rs) = suggest heavy elevator floors_total num_images;
          svc = level_svc suggest_level;
          (svc, rs) = enforce_min svc min_service rs;
          (t_size, wrk, est_minutes) = logistics psize elevator floors_total;
          base_conf = base_conf_of num_images;
          rec_services = rec_services_of svc
      in \<lparr> service_type = svc,
           truck_size = Some t_size,
           workers = Some wrk,
           estimated_minutes = Some est_minutes,
           reasons = rs,
           confidence = base_conf,
           recommended_services = rec_services \<rparr>)"

subsection \<open>Names for intermediate values of a run\<close>

text \<open>
  The values the locals \<^verbatim>\<open>suggest_level\<close> and \<^verbatim>\<open>reasons\<close> hold after line 76,
  and the triple the locals \<^verbatim>\<open>t_size\<close>, \<^verbatim>\<open>workers\<close>, \<^verbatim>\<open>est_minutes\<close> hold
  after line 108, for a given request.
\<close>

definition suggest_of :: "AnalyzeRequest \<Rightarrow> int \<times> string list" where
  "suggest_of req =
     suggest (py_bool (add_heavy (req_context req))) (py_bool (has_elevator (req_context req)))
       (floors_total_of req) (length (image_urls req))"

definition logistics_of :: "AnalyzeRequest \<Rightarrow> string \<times> int \<times> int" where
  "logistics_of req =
     logistics (norm_place_size req) (py_bool (has_elevator (req_context req)))
       (floors_total_of req)"

text \<open>The base minutes of a size code: the third component of its table entry, or of the default.\<close>

definition base_minutes :: "string \<Rightarrow> int" where
  "base_minutes psize = snd (snd (dict_get truck_map psize (''small'', 2, 120)))"

subsection \<open>Sample requests\<close>

definition sample_req ::
  "string \<Rightarrow> int \<Rightarrow> int \<Rightarrow> int \<Rightarrow> int \<Rightarrow> string list \<Rightarrow> AnalyzeRequest" where
  "sample_req psize pf df el ah urls =
     \<lparr> mode = ''images'', video_url = None, image_urls = urls,
       req_context = \<lparr> place_type = None, place_size = Some psize,
         pickup_floor = Some pf, destination_floor = Some df, has_elevator = Some el,
         add_heavy = Some ah, ctx_service_type = None \<rparr> \<rparr>"

text \<open>
  The same signals as \<open>sample_req ''s3_120_150'' 2 1 0 0 [''a'', ''b'']\<close>, every other
  field different.
\<close>

definition other_req :: AnalyzeRequest where
  "other_req =
     \<lparr> mode = ''video'', video_url = Some ''http://v'', image_urls = [''z'', ''a''],
       req_context = \<lparr> place_type = Some ''villa'', place_size = Some ''s3_120_150'',
         pickup_floor = Some 2, destination_floor = Some 1, has_elevator = Some 0,
         add_heavy = Some 0, ctx_service_type = Some ''light'' \<rparr> \<rparr>"

subsection \<open>The minimum tier as section 4.3 of the specification words it\<close>

text \<open>
  These three definitions follow the specification, not the code, and are compared
  with \<open>min_service_of\<close> and \<open>ordinal\<close> below. The rule table of section 4.3 in
  its order: the prefixes of a rule and the tier that the rule sets.
\<close>

definition minimum_tier_rules_spec :: "(string list \<times> string) list" where
  "minimum_tier_rules_spec =
     [([''s3_'', ''s4_''], ''medium''),
      ([''villa_250_350''], ''medium''),
      ([''villa_350_500'', ''comm_150_250''], ''heavy''),
      ([''comm_100_150''], ''medium'')]"

text \<open>
  The rules applied to a size code one after the other, starting from light: a rule
  one of whose prefixes matches sets its tier, overriding the rules before it.
\<close>

definition minimum_tier_spec :: "string \<Rightarrow> string" where
  "minimum_tier_spec psize =
     foldl (\<lambda>tier rule. if list_ex (\<lambda>q. prefix q psize) (fst rule) then snd rule else tier)
       ''light'' minimum_tier_rules_spec"

text \<open>
  The ordinals light 0, medium 1, heavy 2. A name outside the three tiers gets
  \<open>-1\<close>, below every tier.
\<close>

definition tier_ordinal_spec :: "string \<Rightarrow> int" where
  "tier_ordinal_spec tier =
     (if tier = ''light'' then 0
      else if tier = ''medium'' then 1
      else if tier = ''heavy'' then 2
      else - 1)"

section \<open>Properties\<close>

subsection \<open>The stages in closed form\<close>

lemma min_service_of_cases:
  "min_service_of p = ''light'' \<or> min_service_of p = ''medium'' \<or> min_service_of p = ''heavy''"
  by (simp add: min_service_of_def)

text \<open>The four sequential statements as one decision: the last rule that matches wins.\<close>

lemma min_service_of_last_match:
  "min_service_of p =
     (if startswith p ''comm_100_150'' then ''medium''
      else if startswith p ''villa_350_500'' \<or> startswith p ''comm_150_250'' then ''heavy''
      else if startswith p ''villa_250_350'' then ''medium''
      else if startswith p ''s3_'' \<or> startswith p ''s4_'' then ''medium''
      else ''light'')"
  by (simp add: min_service_of_def)

lemma level_svc_cases:
  "level_svc l = ''light'' \<or> level_svc l = ''medium'' \<or> level_svc l = ''heavy''"
  by (simp add: level_svc_def)

lemma ordinal_simps:
  "ordinal ''light'' = 0" "ordinal ''medium'' = 1" "ordinal ''heavy'' = 2"
  by (simp_all add: ordinal_def dict_get_def order_dict_def)

lemma suggest_fst:
  "fst (suggest h e f n) =
     (if h \<or> n \<ge> 12 then 3 else if (\<not> e \<and> f \<ge> 3) \<or> n \<ge> 6 then 2 else 1)"
  by (simp add: suggest_def Let_def)

lemma suggest_snd:
  "snd (suggest h e f n) =
     (if h then [''vision_add_heavy_context''] else []) @
     (if \<not> e \<and> f \<ge> 3 then [''vision_multi_floor_no_elevator''] else []) @
     (if n \<ge> 12 then [''vision_many_images_high_volume'']
      else if n \<ge> 6 then [''vision_medium_images_volume''] else [])"
  by (simp add: suggest_def Let_def)

lemma enforce_min_fst:
  "fst (enforce_min svc m rs) = (if ordinal svc < ordinal m then m else svc)"
  by (simp add: enforce_min_def)

lemma enforce_min_snd:
  "snd (enforce_min svc m rs) =
     rs @ (if ordinal svc < ordinal m then [''vision_place_size_minimum''] else [])"
  by (simp add: enforce_min_def)

lemma logistics_minutes:
  "snd (snd (logistics p e f)) =
     base_minutes p + (if \<not> e \<and> f > 0 then f * 20 else 0)"
  by (simp add: logistics_def base_minutes_def split: prod.splits)

lemma logistics_unknown:
  "p \<notin> set (map fst truck_map) \<Longrightarrow>
     fst (logistics p e f) = ''small'' \<and> fst (snd (logistics p e f)) = 2 \<and> base_minutes p = 120"
  by (simp add: logistics_def base_minutes_def dict_get_def map_of_eq_None_iff [THEN iffD2])


subsection \<open>The fields of the result\<close>

lemma service_type_compute:
  "service_type (compute_recommendations req) =
     fst (enforce_min (level_svc (fst (suggest_of req)))
            (min_service_of (norm_place_size req)) (snd (suggest_of req)))"
  by (simp add: compute_recommendations_def suggest_of_def Let_def split: prod.splits)

lemma reasons_compute:
  "reasons (compute_recommendations req) =
     snd (enforce_min (level_svc (fst (suggest_of req)))
            (min_service_of (norm_place_size req)) (snd (suggest_of req)))"
  by (simp add: compute_recommendations_def suggest_of_def Let_def split: prod.splits)

lemma truck_size_compute:
  "truck_size (compute_recommendations req) = Some (fst (logistics_of req))"
  by (simp add: compute_recommendations_def logistics_of_def Let_def split: prod.splits)

lemma workers_compute:
  "workers (compute_recommendations req) = Some (fst (snd (logistics_of req)))"
  by (simp add: compute_recommendations_def logistics_of_def Let_def split: prod.splits)

lemma estimated_minutes_compute:
  "estimated_minutes (compute_recommendations req) = Some (snd (snd (logistics_of req)))"
  by (simp add: compute_recommendations_def logistics_of_def Let_def split: prod.splits)

lemma confidence_compute:
  "confidence (compute_recommendations req) = base_conf_of (length (image_urls req))"
  by (simp add: compute_recommendations_def Let_def split: prod.splits)

lemma recommended_services_compute:
  "recommended_services (compute_recommendations req) =
     rec_services_of (service_type (compute_recommendations req))"
  by (simp add: compute_recommendations_def Let_def split: prod.splits)

lemma service_type_cases:
  "service_type (compute_recommendations req) = ''light'' \<or>
   service_type (compute_recommendations req) = ''medium'' \<or>
   service_type (compute_recommendations req) = ''heavy''"
  using min_service_of_cases [of "norm_place_size req"] level_svc_cases [of "fst (suggest_of req)"]
  by (auto simp add: service_type_compute enforce_min_fst)

lemma sample_req_simps:
  "py_bool (add_heavy (req_context (sample_req p pf df el ah us))) = (ah \<noteq> 0)"
  "py_bool (has_elevator (req_context (sample_req p pf df el ah us))) = (el \<noteq> 0)"
  "floors_total_of (sample_req p pf df el ah us) = pf + df"
  "image_urls (sample_req p pf df el ah us) = us"
  "norm_place_size (sample_req p pf df el ah us) = lower p"
  by (simp_all add: sample_req_def py_bool_def floors_total_of_def or_zero_def
        norm_place_size_def or_empty_def)

text \<open>The code's minimum and ordinal agree with the specification's.\<close>

lemma min_service_of_spec:
  "min_service_of p = minimum_tier_spec p"
  by (simp add: min_service_of_def minimum_tier_spec_def minimum_tier_rules_spec_def
        startswith_def)

lemma ordinal_spec:
  "t = ''light'' \<or> t = ''medium'' \<or> t = ''heavy'' \<Longrightarrow> ordinal t = tier_ordinal_spec t"
  by (auto simp add: ordinal_simps tier_ordinal_spec_def)

subsection \<open>The service tier\<close>

text \<open>
  Claim C1. For every request, the returned \<open>service_type\<close> is one of light,
  medium, heavy, and its ordinal (light 0, medium 1, heavy 2) is at least the
  ordinal of the minimum tier that the sequential prefix rules of section 4.3 give
  for the lower-cased \<open>place_size\<close>: \<open>s3_\<close> or \<open>s4_\<close> medium, then
  \<open>villa_250_350\<close> medium, then \<open>villa_350_500\<close> or \<open>comm_150_250\<close> heavy,
  then \<open>comm_100_150\<close> medium, and light when no rule matches.
\<close>

theorem service_type_at_least_minimum:
  "(service_type (compute_recommendations req) = ''light'' \<or>
    service_type (compute_recommendations req) = ''medium'' \<or>
    service_type (compute_recommendations req) = ''heavy'') \<and>
   tier_ordinal_spec (minimum_tier_spec (norm_place_size req))
     \<le> tier_ordinal_spec (service_type (compute_recommendations req))"
proof -
  have t: "service_type (compute_recommendations req) = ''light'' \<or>
      service_type (compute_recommendations req) = ''medium'' \<or>
      service_type (compute_recommendations req) = ''heavy''"
    by (rule service_type_cases)
  have m: "ordinal (min_service_of (norm_place_size req))
      = tier_ordinal_spec (minimum_tier_spec (norm_place_size req))"
    using min_service_of_cases [of "norm_place_size req"]
    by (simp add: ordinal_spec min_service_of_spec [symmetric])
  have "ordinal (min_service_of (norm_place_size req))
      \<le> ordinal (service_type (compute_recommendations req))"
    by (simp add: service_type_compute enforce_min_fst)
  with t m show ?thesis
    by (simp add: ordinal_spec)
qed

text \<open>
  A large villa with no other signal has the minimum heavy (ordinal 2) and gets a
  tier of ordinal at least 2; an \<open>s3_\<close> flat with no other signal has the minimum
  medium (ordinal 1); a small flat has the minimum light (ordinal 0).
\<close>

theorem service_type_at_least_minimum_witness:
  "tier_ordinal_spec (minimum_tier_spec (norm_place_size (sample_req ''Villa_350_500'' 0 0 1 0 [])))
     = 2 \<and>
   2 \<le> tier_ordinal_spec
          (service_type (compute_recommendations (sample_req ''Villa_350_500'' 0 0 1 0 []))) \<and>
   tier_ordinal_spec (minimum_tier_spec (norm_place_size (sample_req ''s3_120_150'' 0 0 1 0 [])))
     = 1 \<and>
   1 \<le> tier_ordinal_spec
          (service_type (compute_recommendations (sample_req ''s3_120_150'' 0 0 1 0 []))) \<and>
   tier_ordinal_spec (minimum_tier_spec (norm_place_size (sample_req ''s1_40_60'' 0 0 1 0 [])))
     = 0 \<and>
   0 \<le> tier_ordinal_spec
          (service_type (compute_recommendations (sample_req ''s1_40_60'' 0 0 1 0 [])))"
proof -
  have v: "tier_ordinal_spec
      (minimum_tier_spec (norm_place_size (sample_req ''Villa_350_500'' 0 0 1 0 []))) = 2"
    by code_simp
  have s: "tier_ordinal_spec
      (minimum_tier_spec (norm_place_size (sample_req ''s3_120_150'' 0 0 1 0 []))) = 1"
    by code_simp
  have f: "tier_ordinal_spec
      (minimum_tier_spec (norm_place_size (sample_req ''s1_40_60'' 0 0 1 0 []))) = 0"
    by code_simp
  show ?thesis
    using service_type_at_least_minimum [of "sample_req ''Villa_350_500'' 0 0 1 0 []"]
      service_type_at_least_minimum [of "sample_req ''s3_120_150'' 0 0 1 0 []"]
      service_type_at_least_minimum [of "sample_req ''s1_40_60'' 0 0 1 0 []"]
      v s f
    by simp
qed

text \<open>
  Claim C2. When \<open>add_heavy\<close> is truthy, the reasons contain
  \<open>vision_add_heavy_context\<close> and the returned tier is heavy, whatever the other
  fields are.
\<close>

theorem add_heavy_gives_heavy:
  "py_bool (add_heavy (req_context req)) \<Longrightarrow>
     ''vision_add_heavy_context'' \<in> set (reasons (compute_recommendations req)) \<and>
     service_type (compute_recommendations req) = ''heavy''"
  using min_service_of_cases [of "norm_place_size req"]
  by (auto simp add: service_type_compute reasons_compute enforce_min_fst enforce_min_snd
        suggest_of_def suggest_fst suggest_snd level_svc_def ordinal_simps)

text \<open>A small flat with the heavy flag set, no stairs and no images.\<close>

theorem add_heavy_gives_heavy_witness:
  "py_bool (add_heavy (req_context (sample_req ''s1_40_60'' 0 0 0 1 []))) \<and>
   ''vision_add_heavy_context''
      \<in> set (reasons (compute_recommendations (sample_req ''s1_40_60'' 0 0 0 1 []))) \<and>
   service_type (compute_recommendations (sample_req ''s1_40_60'' 0 0 0 1 [])) = ''heavy''"
proof -
  have h: "py_bool (add_heavy (req_context (sample_req ''s1_40_60'' 0 0 0 1 [])))"
    by (simp add: sample_req_simps)
  from add_heavy_gives_heavy [OF h] h show ?thesis by simp
qed

subsection \<open>Logistics\<close>



text \<open>
  Claim C6. When the lower-cased \<open>place_size\<close> is not a key of the logistics table
  and starts with none of the six minimum-tier prefixes, the function returns the
  default truck \<open>small\<close>, 2 workers and 120 minutes plus the stairs penalty where
  it applies, and no minimum is enforced: the minimum is light, the reason
  \<open>vision_place_size_minimum\<close> is absent and the tier is the one the suggested
  level gives. The function has no failing branch: it is total on every request.
\<close>

theorem unknown_place_size_defaults:
  assumes "norm_place_size req \<notin> set (map fst truck_map)"
    and "\<not> startswith (norm_place_size req) ''s3_''"
    and "\<not> startswith (norm_place_size req) ''s4_''"
    and "\<not> startswith (norm_place_size req) ''villa_250_350''"
    and "\<not> startswith (norm_place_size req) ''villa_350_500''"
    and "\<not> startswith (norm_place_size req) ''comm_150_250''"
    and "\<not> startswith (norm_place_size req) ''comm_100_150''"
  shows "truck_size (compute_recommendations req) = Some ''small'' \<and>
         workers (compute_recommendations req) = Some 2 \<and>
         estimated_minutes (compute_recommendations req) =
           Some (120 + (if \<not> py_bool (has_elevator (req_context req)) \<and> floors_total_of req > 0
                        then floors_total_of req * 20 else 0)) \<and>
         min_service_of (norm_place_size req) = ''light'' \<and>
         ''vision_place_size_minimum'' \<notin> set (reasons (compute_recommendations req)) \<and>
         service_type (compute_recommendations req) = level_svc (fst (suggest_of req))"
proof -
  have m: "min_service_of (norm_place_size req) = ''light''"
    using assms(2-) by (simp add: min_service_of_def)
  have o: "\<not> ordinal (level_svc (fst (suggest_of req))) < ordinal ''light''"
    using level_svc_cases [of "fst (suggest_of req)"] by (auto simp add: ordinal_simps)
  have r: "''vision_place_size_minimum'' \<notin> set (snd (suggest_of req))"
    by (simp add: suggest_of_def suggest_snd)
  show ?thesis
    using logistics_unknown [OF assms(1)] m o r
    by (simp add: truck_size_compute workers_compute estimated_minutes_compute logistics_of_def
          logistics_minutes service_type_compute reasons_compute enforce_min_fst enforce_min_snd)
qed

text \<open>
  The size code \<open>Unknown_Code\<close>, two plus two floors and no lift: the defaults,
  120 + 80 minutes, and the light tier.
\<close>

theorem unknown_place_size_defaults_witness:
  "norm_place_size (sample_req ''Unknown_Code'' 2 2 0 0 []) = ''unknown_code'' \<and>
   ''unknown_code'' \<notin> set (map fst truck_map) \<and>
   truck_size (compute_recommendations (sample_req ''Unknown_Code'' 2 2 0 0 [])) = Some ''small'' \<and>
   workers (compute_recommendations (sample_req ''Unknown_Code'' 2 2 0 0 [])) = Some 2 \<and>
   estimated_minutes (compute_recommendations (sample_req ''Unknown_Code'' 2 2 0 0 [])) = Some 200 \<and>
   ''vision_place_size_minimum''
     \<notin> set (reasons (compute_recommendations (sample_req ''Unknown_Code'' 2 2 0 0 []))) \<and>
   service_type (compute_recommendations (sample_req ''Unknown_Code'' 2 2 0 0 [])) = ''medium''"
proof -
  have n: "norm_place_size (sample_req ''Unknown_Code'' 2 2 0 0 []) = ''unknown_code''"
    by code_simp
  have k: "''unknown_code'' \<notin> set (map fst truck_map)"
    by (simp add: truck_map_def)
  have p: "\<not> startswith ''unknown_code'' ''s3_''" "\<not> startswith ''unknown_code'' ''s4_''"
    "\<not> startswith ''unknown_code'' ''villa_250_350''"
    "\<not> startswith ''unknown_code'' ''villa_350_500''"
    "\<not> startswith ''unknown_code'' ''comm_150_250''"
    "\<not> startswith ''unknown_code'' ''comm_100_150''"
    by (simp_all add: startswith_def)
  have s: "level_svc (fst (suggest_of (sample_req ''Unknown_Code'' 2 2 0 0 []))) = ''medium''"
    by (simp add: suggest_of_def sample_req_simps suggest_fst level_svc_def)
  show ?thesis
    using unknown_place_size_defaults [of "sample_req ''Unknown_Code'' 2 2 0 0 []"] n k p s
    by (simp add: sample_req_simps)
qed

subsection \<open>Confidence and offered services\<close>

text \<open>
  Claim C4. The confidence is 0.85 for at least ten image URLs, 0.78 for five to
  nine and 0.70 below five; hence a request with at least as many images as another
  never has the lower confidence, whatever their other fields are (in particular
  when the other fields are equal).
\<close>

theorem confidence_bands_monotone:
  "confidence (compute_recommendations req) =
     (if length (image_urls req) \<ge> 10 then 85 / 100
      else if length (image_urls req) \<ge> 5 then 78 / 100 else 70 / 100) \<and>
   (\<forall>req'. length (image_urls req) \<le> length (image_urls req') \<longrightarrow>
      confidence (compute_recommendations req) \<le> confidence (compute_recommendations req'))"
  by (simp add: confidence_compute base_conf_of_def)

text \<open>Four images against ten, every other field equal: 0.70 and 0.85.\<close>

theorem confidence_bands_monotone_witness:
  "length (image_urls (sample_req ''s1_40_60'' 0 0 0 0 (replicate 4 ''u'')))
     \<le> length (image_urls (sample_req ''s1_40_60'' 0 0 0 0 (replicate 10 ''u''))) \<and>
   confidence (compute_recommendations (sample_req ''s1_40_60'' 0 0 0 0 (replicate 4 ''u'')))
     = 70 / 100 \<and>
   confidence (compute_recommendations (sample_req ''s1_40_60'' 0 0 0 0 (replicate 10 ''u'')))
     = 85 / 100 \<and>
   confidence (compute_recommendations (sample_req ''s1_40_60'' 0 0 0 0 (replicate 4 ''u'')))
     \<le> confidence (compute_recommendations (sample_req ''s1_40_60'' 0 0 0 0 (replicate 10 ''u'')))"
proof -
  have h: "length (image_urls (sample_req ''s1_40_60'' 0 0 0 0 (replicate 4 ''u'')))
     \<le> length (image_urls (sample_req ''s1_40_60'' 0 0 0 0 (replicate 10 ''u'')))"
    by (simp add: sample_req_simps)
  have a: "confidence (compute_recommendations (sample_req ''s1_40_60'' 0 0 0 0 (replicate 4 ''u'')))
     = 70 / 100"
    using confidence_bands_monotone [of "sample_req ''s1_40_60'' 0 0 0 0 (replicate 4 ''u'')"]
    by (simp add: sample_req_simps)
  have b: "confidence (compute_recommendations (sample_req ''s1_40_60'' 0 0 0 0 (replicate 10 ''u'')))
     = 85 / 100"
    using confidence_bands_monotone [of "sample_req ''s1_40_60'' 0 0 0 0 (replicate 10 ''u'')"]
    by (simp add: sample_req_simps)
  have c: "confidence (compute_recommendations (sample_req ''s1_40_60'' 0 0 0 0 (replicate 4 ''u'')))
     \<le> confidence (compute_recommendations (sample_req ''s1_40_60'' 0 0 0 0 (replicate 10 ''u'')))"
    using confidence_bands_monotone [of "sample_req ''s1_40_60'' 0 0 0 0 (replicate 4 ''u'')"] h
    by blast
  from h a b c show ?thesis by blast
qed

text \<open>
  Claim C5. The list \<open>recommended_services\<close> is never empty; it has length 1
  exactly when the returned tier is heavy, and is then \<open>[heavy]\<close>; otherwise it has
  length 2, \<open>[light, medium]\<close> for light and \<open>[medium, heavy]\<close> for medium; its
  first element is always the returned tier.
\<close>

theorem recommended_services_shape:
  "recommended_services (compute_recommendations req) \<noteq> [] \<and>
   (length (recommended_services (compute_recommendations req)) = 1
      \<longleftrightarrow> service_type (compute_recommendations req) = ''heavy'') \<and>
   (service_type (compute_recommendations req) = ''heavy'' \<longrightarrow>
      recommended_services (compute_recommendations req) = [''heavy'']) \<and>
   (service_type (compute_recommendations req) \<noteq> ''heavy'' \<longrightarrow>
      length (recommended_services (compute_recommendations req)) = 2) \<and>
   (service_type (compute_recommendations req) = ''light'' \<longrightarrow>
      recommended_services (compute_recommendations req) = [''light'', ''medium'']) \<and>
   (service_type (compute_recommendations req) = ''medium'' \<longrightarrow>
      recommended_services (compute_recommendations req) = [''medium'', ''heavy'']) \<and>
   hd (recommended_services (compute_recommendations req))
      = service_type (compute_recommendations req)"
  using service_type_cases [of req]
  by (auto simp add: recommended_services_compute rec_services_of_def)

text \<open>
  One request for each tier: a small flat (light), the same flat with six images
  (medium), and with the heavy flag (heavy).
\<close>

theorem recommended_services_shape_witness:
  "service_type (compute_recommendations (sample_req ''s1_40_60'' 0 0 1 0 [])) = ''light'' \<and>
   recommended_services (compute_recommendations (sample_req ''s1_40_60'' 0 0 1 0 []))
     = [''light'', ''medium''] \<and>
   service_type (compute_recommendations (sample_req ''s1_40_60'' 0 0 1 0 (replicate 6 ''u'')))
     = ''medium'' \<and>
   recommended_services (compute_recommendations (sample_req ''s1_40_60'' 0 0 1 0 (replicate 6 ''u'')))
     = [''medium'', ''heavy''] \<and>
   service_type (compute_recommendations (sample_req ''s1_40_60'' 0 0 1 1 [])) = ''heavy'' \<and>
   recommended_services (compute_recommendations (sample_req ''s1_40_60'' 0 0 1 1 []))
     = [''heavy'']"
proof -
  have m: "min_service_of (lower ''s1_40_60'') = ''light''"
    by (simp add: lower_def lower_char_def min_service_of_def startswith_def)
  have l: "service_type (compute_recommendations (sample_req ''s1_40_60'' 0 0 1 0 [])) = ''light''"
    by (simp add: service_type_compute suggest_of_def sample_req_simps suggest_fst level_svc_def
          enforce_min_fst m)
  have d: "service_type (compute_recommendations (sample_req ''s1_40_60'' 0 0 1 0 (replicate 6 ''u'')))
     = ''medium''"
    by (simp add: service_type_compute suggest_of_def sample_req_simps suggest_fst level_svc_def
          enforce_min_fst m ordinal_simps)
  have h: "service_type (compute_recommendations (sample_req ''s1_40_60'' 0 0 1 1 [])) = ''heavy''"
    by (simp add: service_type_compute suggest_of_def sample_req_simps suggest_fst level_svc_def
          enforce_min_fst m ordinal_simps)
  show ?thesis
    using recommended_services_shape [of "sample_req ''s1_40_60'' 0 0 1 0 []"]
      recommended_services_shape [of "sample_req ''s1_40_60'' 0 0 1 0 (replicate 6 ''u'')"]
      recommended_services_shape [of "sample_req ''s1_40_60'' 0 0 1 1 []"]
      l d h
    by simp
qed

subsection \<open>The reasons\<close>

text \<open>
  Claim C7. The reasons are exactly the codes of the rules that fired, in the order
  of evaluation: \<open>vision_add_heavy_context\<close> if \<open>add_heavy\<close>; then
  \<open>vision_multi_floor_no_elevator\<close> if there is no lift and the floors sum to 3
  or more; then \<open>vision_many_images_high_volume\<close> for 12 or more images, or else
  \<open>vision_medium_images_volume\<close> for 6 or more (never both, neither below 6);
  then \<open>vision_place_size_minimum\<close> if the tier of the suggested level lies below
  the minimum of the size code, which is when line 85 enforces the minimum.
\<close>

theorem reasons_in_evaluation_order:
  "reasons (compute_recommendations req) =
     (if py_bool (add_heavy (req_context req)) then [''vision_add_heavy_context''] else []) @
     (if \<not> py_bool (has_elevator (req_context req)) \<and> floors_total_of req \<ge> 3
      then [''vision_multi_floor_no_elevator''] else []) @
     (if length (image_urls req) \<ge> 12 then [''vision_many_images_high_volume'']
      else if length (image_urls req) \<ge> 6 then [''vision_medium_images_volume''] else []) @
     (if ordinal (level_svc (fst (suggest_of req))) < ordinal (min_service_of (norm_place_size req))
      then [''vision_place_size_minimum''] else [])"
  by (simp add: reasons_compute enforce_min_snd suggest_of_def suggest_snd)

text \<open>
  Claim C10. The reasons never repeat a code and are at most three; the codes
  \<open>vision_add_heavy_context\<close> and \<open>vision_place_size_minimum\<close> never occur
  together, since \<open>add_heavy\<close> gives the heavy tier, which no minimum exceeds.
\<close>

theorem reasons_distinct_at_most_three:
  "distinct (reasons (compute_recommendations req)) \<and>
   length (reasons (compute_recommendations req)) \<le> 3 \<and>
   \<not> (''vision_add_heavy_context'' \<in> set (reasons (compute_recommendations req)) \<and>
      ''vision_place_size_minimum'' \<in> set (reasons (compute_recommendations req)))"
  using min_service_of_cases [of "norm_place_size req"]
  by (auto simp add: reasons_compute enforce_min_snd suggest_of_def suggest_snd suggest_fst
        level_svc_def ordinal_simps)

subsection \<open>A worked example and the fields that are read\<close>

text \<open>
  Claim C8. For \<open>place_size = villa_350_500\<close>, \<open>add_heavy = 0\<close>,
  \<open>has_elevator = 1\<close>, both floors 0 and no image, the result has the tier heavy
  with \<open>vision_place_size_minimum\<close> among the reasons, truck \<open>xxl\<close>, 5 workers,
  480 minutes, confidence 0.70 and \<open>recommended_services = [heavy]\<close>. The fields
  the example leaves open (\<open>m\<close>, \<open>v\<close>, \<open>pt\<close>, \<open>st\<close>) are arbitrary.
\<close>

theorem villa_350_500_example:
  "service_type (compute_recommendations
      \<lparr> mode = m, video_url = v, image_urls = [],
        req_context = \<lparr> place_type = pt, place_size = Some ''villa_350_500'',
          pickup_floor = Some 0, destination_floor = Some 0, has_elevator = Some 1,
          add_heavy = Some 0, ctx_service_type = st \<rparr> \<rparr>) = ''heavy'' \<and>
   ''vision_place_size_minimum'' \<in> set (reasons (compute_recommendations
      \<lparr> mode = m, video_url = v, image_urls = [],
        req_context = \<lparr> place_type = pt, place_size = Some ''villa_350_500'',
          pickup_floor = Some 0, destination_floor = Some 0, has_elevator = Some 1,
          add_heavy = Some 0, ctx_service_type = st \<rparr> \<rparr>)) \<and>
   truck_size (compute_recommendations
      \<lparr> mode = m, video_url = v, image_urls = [],
        req_context = \<lparr> place_type = pt, place_size = Some ''villa_350_500'',
          pickup_floor = Some 0, destination_floor = Some 0, has_elevator = Some 1,
          add_heavy = Some 0, ctx_service_type = st \<rparr> \<rparr>) = Some ''xxl'' \<and>
   workers (compute_recommendations
      \<lparr> mode = m, video_url = v, image_urls = [],
        req_context = \<lparr> place_type = pt, place_size = Some ''villa_350_500'',
          pickup_floor = Some 0, destination_floor = Some 0, has_elevator = Some 1,
          add_heavy = Some 0, ctx_service_type = st \<rparr> \<rparr>) = Some 5 \<and>
   estimated_minutes (compute_recommendations
      \<lparr> mode = m, video_url = v, image_urls = [],
        req_context = \<lparr> place_type = pt, place_size = Some ''villa_350_500'',
          pickup_floor = Some 0, destination_floor = Some 0, has_elevator = Some 1,
          add_heavy = Some 0, ctx_service_type = st \<rparr> \<rparr>) = Some 480 \<and>
   confidence (compute_recommendations
      \<lparr> mode = m, video_url = v, image_urls = [],
        req_context = \<lparr> place_type = pt, place_size = Some ''villa_350_500'',
          pickup_floor = Some 0, destination_floor = Some 0, has_elevator = Some 1,
          add_heavy = Some 0, ctx_service_type = st \<rparr> \<rparr>) = 70 / 100 \<and>
   recommended_services (compute_recommendations
      \<lparr> mode = m, video_url = v, image_urls = [],
        req_context = \<lparr> place_type = pt, place_size = Some ''villa_350_500'',
          pickup_floor = Some 0, destination_floor = Some 0, has_elevator = Some 1,
          add_heavy = Some 0, ctx_service_type = st \<rparr> \<rparr>) = [''heavy'']"
  by (simp add: service_type_compute reasons_compute truck_size_compute workers_compute
      estimated_minutes_compute confidence_compute recommended_services_compute
      suggest_of_def logistics_of_def norm_place_size_def or_empty_def floors_total_of_def
      or_zero_def py_bool_def lower_def lower_char_def
      min_service_of_def startswith_def suggest_def level_svc_def enforce_min_def ordinal_def
      dict_get_def order_dict_def logistics_def truck_map_def base_conf_of_def
      rec_services_of_def Let_def)

text \<open>
  Claim C9. Two requests with the same \<open>place_size\<close>, \<open>pickup_floor\<close>,
  \<open>destination_floor\<close>, \<open>has_elevator\<close>, \<open>add_heavy\<close> and number of image
  URLs get the same recommendation: \<open>mode\<close>, \<open>video_url\<close>, \<open>place_type\<close>,
  the \<open>service_type\<close> hint, and the contents and order of the URLs are not read.
\<close>

theorem output_independent_of_unused_fields:
  assumes "place_size (req_context r1) = place_size (req_context r2)"
    and "pickup_floor (req_context r1) = pickup_floor (req_context r2)"
    and "destination_floor (req_context r1) = destination_floor (req_context r2)"
    and "has_elevator (req_context r1) = has_elevator (req_context r2)"
    and "add_heavy (req_context r1) = add_heavy (req_context r2)"
    and "length (image_urls r1) = length (image_urls r2)"
  shows "compute_recommendations r1 = compute_recommendations r2"
  using assms
  by (simp add: compute_recommendations_def norm_place_size_def floors_total_of_def Let_def)

text \<open>
  Two requests that share the six signals and differ in every other field, the URLs
  included.
\<close>

theorem output_independent_of_unused_fields_witness:
  "mode (sample_req ''s3_120_150'' 2 1 0 0 [''a'', ''b'']) \<noteq> mode other_req \<and>
   video_url (sample_req ''s3_120_150'' 2 1 0 0 [''a'', ''b'']) \<noteq> video_url other_req \<and>
   image_urls (sample_req ''s3_120_150'' 2 1 0 0 [''a'', ''b'']) \<noteq> image_urls other_req \<and>
   place_type (req_context (sample_req ''s3_120_150'' 2 1 0 0 [''a'', ''b'']))
     \<noteq> place_type (req_context other_req) \<and>
   ctx_service_type (req_context (sample_req ''s3_120_150'' 2 1 0 0 [''a'', ''b'']))
     \<noteq> ctx_service_type (req_context other_req) \<and>
   compute_recommendations (sample_req ''s3_120_150'' 2 1 0 0 [''a'', ''b''])
     = compute_recommendations other_req"
proof -
  have d: "mode (sample_req ''s3_120_150'' 2 1 0 0 [''a'', ''b'']) \<noteq> mode other_req"
    "video_url (sample_req ''s3_120_150'' 2 1 0 0 [''a'', ''b'']) \<noteq> video_url other_req"
    "image_urls (sample_req ''s3_120_150'' 2 1 0 0 [''a'', ''b'']) \<noteq> image_urls other_req"
    "place_type (req_context (sample_req ''s3_120_150'' 2 1 0 0 [''a'', ''b'']))
       \<noteq> place_type (req_context other_req)"
    "ctx_service_type (req_context (sample_req ''s3_120_150'' 2 1 0 0 [''a'', ''b'']))
       \<noteq> ctx_service_type (req_context other_req)"
    by (simp_all add: sample_req_def other_req_def)
  have e: "compute_recommendations (sample_req ''s3_120_150'' 2 1 0 0 [''a'', ''b''])
     = compute_recommendations other_req"
    by (rule output_independent_of_unused_fields) (simp_all add: sample_req_def other_req_def)
  from d e show ?thesis by simp
qed

end
